theory Spec2Isabelle
  imports Main "HOL-Library.Word"
begin

section \<open>C types of c11threads-tiny.h\<close>

text \<open>
  The header is a layer of \<^verbatim>\<open>static inline\<close> wrappers over the POSIX threads
  interface. The C types are modelled at the widths of an LP64 platform (the data model
  of the 64-bit systems that provide pthreads): \<^verbatim>\<open>int\<close> has 32 bits,
  \<^verbatim>\<open>long\<close> and every pointer have 64 bits. Object and function pointers are
  addresses; the null pointer is address 0.
\<close>

type_synonym c_int = "32 word"
type_synonym c_long = "64 word"
type_synonym c_ptr = "64 word"

text \<open>
  \<^verbatim>\<open>typedef pthread_t thrd_t;  typedef pthread_key_t tss_t;\<close>
  Both are passed by value; \<^verbatim>\<open>pthread_t\<close> is an unsigned long and
  \<^verbatim>\<open>pthread_key_t\<close> an unsigned int. \<^verbatim>\<open>mtx_t\<close>, \<^verbatim>\<open>cnd_t\<close>
  and \<^verbatim>\<open>once_flag\<close> are only passed by pointer.
\<close>

type_synonym thrd_t = "64 word"
type_synonym tss_t = "32 word"

definition NULL :: c_ptr where
  "NULL = 0"

text \<open>\<^verbatim>\<open>enum { mtx_plain = 0, mtx_recursive = 1, mtx_timed = 2, mtx_try = 4 };\<close>\<close>

definition mtx_plain :: c_int where "mtx_plain = 0"
definition mtx_recursive :: c_int where "mtx_recursive = 1"
definition mtx_timed :: c_int where "mtx_timed = 2"
definition mtx_try :: c_int where "mtx_try = 4"

text \<open>\<^verbatim>\<open>enum { thrd_success, thrd_busy, thrd_error, thrd_nomem };\<close>\<close>

definition thrd_success :: c_int where "thrd_success = 0"
definition thrd_busy :: c_int where "thrd_busy = 1"
definition thrd_error :: c_int where "thrd_error = 2"
definition thrd_nomem :: c_int where "thrd_nomem = 3"

subsection \<open>Conversions between int, long and pointers\<close>

text \<open>
  \<^verbatim>\<open>(long)res\<close> sign-extends the int; \<^verbatim>\<open>(void*)l\<close> reinterprets a long of
  pointer width; \<^verbatim>\<open>(int)retval\<close> keeps the low 32 bits of the pointer.
\<close>

definition long_of_int :: "c_int \<Rightarrow> c_long" where
  "long_of_int i = scast i"

definition ptr_of_long :: "c_long \<Rightarrow> c_ptr" where
  "ptr_of_long l = ucast l"

definition int_of_ptr :: "c_ptr \<Rightarrow> c_int" where
  "int_of_ptr p = ucast p"

section \<open>The native threading facility\<close>

text \<open>
  The pthread functions, \<^verbatim>\<open>sched_yield\<close> and the errno constants come from the
  system headers, not from this repository. They are parameters of the model: a record
  of operations on a native state \<open>'n\<close>. Each operation takes the arguments of the C
  function and the native state, and gives the returned int with the new state. An
  operation that may suspend the calling thread gives \<open>None\<close> when the call does not
  come back. \<^verbatim>\<open>pthread_join\<close> also gives the pointer it stores through its second
  argument (read by the caller only on success).
\<close>

record 'n pthreads =
  EDEADLK :: c_int
  EBUSY :: c_int
  pthread_create :: "c_ptr \<Rightarrow> c_ptr \<Rightarrow> c_ptr \<Rightarrow> c_ptr \<Rightarrow> 'n \<Rightarrow> c_int \<times> 'n"
  pthread_exit :: "c_ptr \<Rightarrow> 'n \<Rightarrow> 'n"
  pthread_join :: "thrd_t \<Rightarrow> 'n \<Rightarrow> ((c_int \<times> c_ptr) \<times> 'n) option"
  pthread_detach :: "thrd_t \<Rightarrow> 'n \<Rightarrow> c_int \<times> 'n"
  pthread_self :: "'n \<Rightarrow> thrd_t"
  pthread_equal :: "thrd_t \<Rightarrow> thrd_t \<Rightarrow> c_int"
  sched_yield :: "'n \<Rightarrow> c_int \<times> 'n"
  pthread_mutex_init :: "c_ptr \<Rightarrow> c_ptr \<Rightarrow> 'n \<Rightarrow> c_int \<times> 'n"
  pthread_mutex_destroy :: "c_ptr \<Rightarrow> 'n \<Rightarrow> c_int \<times> 'n"
  pthread_mutex_lock :: "c_ptr \<Rightarrow> 'n \<Rightarrow> (c_int \<times> 'n) option"
  pthread_mutex_trylock :: "c_ptr \<Rightarrow> 'n \<Rightarrow> c_int \<times> 'n"
  pthread_mutex_unlock :: "c_ptr \<Rightarrow> 'n \<Rightarrow> c_int \<times> 'n"
  pthread_cond_init :: "c_ptr \<Rightarrow> c_ptr \<Rightarrow> 'n \<Rightarrow> c_int \<times> 'n"
  pthread_cond_destroy :: "c_ptr \<Rightarrow> 'n \<Rightarrow> c_int \<times> 'n"
  pthread_cond_signal :: "c_ptr \<Rightarrow> 'n \<Rightarrow> c_int \<times> 'n"
  pthread_cond_broadcast :: "c_ptr \<Rightarrow> 'n \<Rightarrow> c_int \<times> 'n"
  pthread_cond_wait :: "c_ptr \<Rightarrow> c_ptr \<Rightarrow> 'n \<Rightarrow> (c_int \<times> 'n) option"
  pthread_key_create :: "c_ptr \<Rightarrow> c_ptr \<Rightarrow> 'n \<Rightarrow> c_int \<times> 'n"
  pthread_key_delete :: "tss_t \<Rightarrow> 'n \<Rightarrow> c_int \<times> 'n"
  pthread_setspecific :: "tss_t \<Rightarrow> c_ptr \<Rightarrow> 'n \<Rightarrow> c_int \<times> 'n"
  pthread_getspecific :: "tss_t \<Rightarrow> 'n \<Rightarrow> c_ptr"
  pthread_once :: "c_ptr \<Rightarrow> c_ptr \<Rightarrow> 'n \<Rightarrow> (c_int \<times> 'n) option"

text \<open>
  What a caller of the layer sees: its own int objects, by address (the only memory a
  wrapper writes itself, through \<^verbatim>\<open>int* res\<close> of \<^verbatim>\<open>thrd_join\<close>), and
  the state of the native facility.
\<close>

record 'n world =
  ints :: "c_ptr \<Rightarrow> c_int"
  native :: 'n

section \<open>Thread management\<close>

definition thrd_create :: "'n pthreads \<Rightarrow> c_ptr \<Rightarrow> c_ptr \<Rightarrow> c_ptr \<Rightarrow> 'n world \<Rightarrow> c_int \<times> 'n world" where
  "thrd_create P thr func arg w =
     (case pthread_create P thr 0 func arg (native w) of
        (r, n') \<Rightarrow> (if r = 0 then thrd_success else thrd_error, w\<lparr>native := n'\<rparr>))"

text \<open>\<^verbatim>\<open>thrd_exit\<close> does not return: its result is the state the thread leaves behind.\<close>

definition thrd_exit :: "'n pthreads \<Rightarrow> c_int \<Rightarrow> 'n world \<Rightarrow> 'n world" where
  "thrd_exit P res w = w\<lparr>native := pthread_exit P (ptr_of_long (long_of_int res)) (native w)\<rparr>"

definition thrd_join :: "'n pthreads \<Rightarrow> thrd_t \<Rightarrow> c_ptr \<Rightarrow> 'n world \<Rightarrow> (c_int \<times> 'n world) option" where
  "thrd_join P thr res w =
     (case pthread_join P thr (native w) of
        None \<Rightarrow> None
      | Some ((r, retval), n') \<Rightarrow>
          if r \<noteq> 0 then Some (thrd_error, w\<lparr>native := n'\<rparr>)
          else if res \<noteq> 0
            then Some (thrd_success, w\<lparr>ints := (ints w)(res := int_of_ptr retval), native := n'\<rparr>)
            else Some (thrd_success, w\<lparr>native := n'\<rparr>))"

definition thrd_detatch :: "'n pthreads \<Rightarrow> thrd_t \<Rightarrow> 'n world \<Rightarrow> c_int \<times> 'n world" where
  "thrd_detatch P thr w =
     (case pthread_detach P thr (native w) of
        (r, n') \<Rightarrow> (if r = 0 then thrd_success else thrd_error, w\<lparr>native := n'\<rparr>))"

definition thrd_current :: "'n pthreads \<Rightarrow> 'n world \<Rightarrow> thrd_t" where
  "thrd_current P w = pthread_self P (native w)"

definition thrd_equal :: "'n pthreads \<Rightarrow> thrd_t \<Rightarrow> thrd_t \<Rightarrow> c_int" where
  "thrd_equal P a b = pthread_equal P a b"

definition thrd_yield :: "'n pthreads \<Rightarrow> 'n world \<Rightarrow> 'n world" where
  "thrd_yield P w = w\<lparr>native := snd (sched_yield P (native w))\<rparr>"

section \<open>Mutexes\<close>

text \<open>The \<^verbatim>\<open>type\<close> argument of \<^verbatim>\<open>mtx_init\<close> is not used by its body.\<close>

definition mtx_init :: "'n pthreads \<Rightarrow> c_ptr \<Rightarrow> c_int \<Rightarrow> 'n world \<Rightarrow> c_int \<times> 'n world" where
  "mtx_init P mtx type w =
     (case pthread_mutex_init P mtx NULL (native w) of
        (r, n') \<Rightarrow> (if r = 0 then thrd_success else thrd_error, w\<lparr>native := n'\<rparr>))"

definition mtx_destroy :: "'n pthreads \<Rightarrow> c_ptr \<Rightarrow> 'n world \<Rightarrow> 'n world" where
  "mtx_destroy P mtx w = w\<lparr>native := snd (pthread_mutex_destroy P mtx (native w))\<rparr>"

definition mtx_lock :: "'n pthreads \<Rightarrow> c_ptr \<Rightarrow> 'n world \<Rightarrow> (c_int \<times> 'n world) option" where
  "mtx_lock P mtx w =
     (case pthread_mutex_lock P mtx (native w) of
        None \<Rightarrow> None
      | Some (res, n') \<Rightarrow>
          if res = EDEADLK P then Some (thrd_busy, w\<lparr>native := n'\<rparr>)
          else Some (if res = 0 then thrd_success else thrd_error, w\<lparr>native := n'\<rparr>))"

definition mtx_trylock :: "'n pthreads \<Rightarrow> c_ptr \<Rightarrow> 'n world \<Rightarrow> c_int \<times> 'n world" where
  "mtx_trylock P mtx w =
     (case pthread_mutex_trylock P mtx (native w) of
        (res, n') \<Rightarrow>
          if res = EBUSY P then (thrd_busy, w\<lparr>native := n'\<rparr>)
          else (if res = 0 then thrd_success else thrd_error, w\<lparr>native := n'\<rparr>))"

definition mtx_unlock :: "'n pthreads \<Rightarrow> c_ptr \<Rightarrow> 'n world \<Rightarrow> c_int \<times> 'n world" where
  "mtx_unlock P mtx w =
     (case pthread_mutex_unlock P mtx (native w) of
        (r, n') \<Rightarrow> (if r = 0 then thrd_success else thrd_error, w\<lparr>native := n'\<rparr>))"

section \<open>Condition variables\<close>

definition cnd_init :: "'n pthreads \<Rightarrow> c_ptr \<Rightarrow> 'n world \<Rightarrow> c_int \<times> 'n world" where
  "cnd_init P cond w =
     (case pthread_cond_init P cond 0 (native w) of
        (r, n') \<Rightarrow> (if r = 0 then thrd_success else thrd_error, w\<lparr>native := n'\<rparr>))"

definition cnd_destroy :: "'n pthreads \<Rightarrow> c_ptr \<Rightarrow> 'n world \<Rightarrow> 'n world" where
  "cnd_destroy P cond w = w\<lparr>native := snd (pthread_cond_destroy P cond (native w))\<rparr>"

definition cnd_signal :: "'n pthreads \<Rightarrow> c_ptr \<Rightarrow> 'n world \<Rightarrow> c_int \<times> 'n world" where
  "cnd_signal P cond w =
     (case pthread_cond_signal P cond (native w) of
        (r, n') \<Rightarrow> (if r = 0 then thrd_success else thrd_error, w\<lparr>native := n'\<rparr>))"

definition cnd_broadcast :: "'n pthreads \<Rightarrow> c_ptr \<Rightarrow> 'n world \<Rightarrow> c_int \<times> 'n world" where
  "cnd_broadcast P cond w =
     (case pthread_cond_broadcast P cond (native w) of
        (r, n') \<Rightarrow> (if r = 0 then thrd_success else thrd_error, w\<lparr>native := n'\<rparr>))"

definition cnd_wait :: "'n pthreads \<Rightarrow> c_ptr \<Rightarrow> c_ptr \<Rightarrow> 'n world \<Rightarrow> (c_int \<times> 'n world) option" where
  "cnd_wait P cond mtx w =
     (case pthread_cond_wait P cond mtx (native w) of
        None \<Rightarrow> None
      | Some (r, n') \<Rightarrow> Some (if r = 0 then thrd_success else thrd_error, w\<lparr>native := n'\<rparr>))"

section \<open>Thread-specific data\<close>

definition tss_create :: "'n pthreads \<Rightarrow> c_ptr \<Rightarrow> c_ptr \<Rightarrow> 'n world \<Rightarrow> c_int \<times> 'n world" where
  "tss_create P key dtor w =
     (case pthread_key_create P key dtor (native w) of
        (r, n') \<Rightarrow> (if r = 0 then thrd_success else thrd_error, w\<lparr>native := n'\<rparr>))"

definition tss_delete :: "'n pthreads \<Rightarrow> tss_t \<Rightarrow> 'n world \<Rightarrow> 'n world" where
  "tss_delete P key w = w\<lparr>native := snd (pthread_key_delete P key (native w))\<rparr>"

definition tss_set :: "'n pthreads \<Rightarrow> tss_t \<Rightarrow> c_ptr \<Rightarrow> 'n world \<Rightarrow> c_int \<times> 'n world" where
  "tss_set P key val w =
     (case pthread_setspecific P key val (native w) of
        (r, n') \<Rightarrow> (if r = 0 then thrd_success else thrd_error, w\<lparr>native := n'\<rparr>))"

definition tss_get :: "'n pthreads \<Rightarrow> tss_t \<Rightarrow> 'n world \<Rightarrow> c_ptr" where
  "tss_get P key w = pthread_getspecific P key (native w)"

section \<open>One-time initialisation\<close>

text \<open>\<^verbatim>\<open>call_once\<close> is a void function: the int of \<^verbatim>\<open>pthread_once\<close> is dropped.\<close>

definition call_once :: "'n pthreads \<Rightarrow> c_ptr \<Rightarrow> c_ptr \<Rightarrow> 'n world \<Rightarrow> 'n world option" where
  "call_once P flag func w =
     (case pthread_once P flag func (native w) of
        None \<Rightarrow> None
      | Some (r, n') \<Rightarrow> Some (w\<lparr>native := n'\<rparr>))"

section \<open>The public operations as one interface\<close>

text \<open>
  What a call of the layer hands back to its caller, by the C return type of the
  function: an int, nothing (a void function), a pointer or a thread handle.
\<close>

datatype c_value = V_int c_int | V_void | V_ptr c_ptr | V_thrd thrd_t

text \<open>One constructor for each function that the header defines, with its arguments.\<close>

datatype api_call =
    Thrd_create c_ptr c_ptr c_ptr
  | Thrd_exit c_int
  | Thrd_join thrd_t c_ptr
  | Thrd_detatch thrd_t
  | Thrd_current
  | Thrd_equal thrd_t thrd_t
  | Thrd_yield
  | Mtx_init c_ptr c_int
  | Mtx_destroy c_ptr
  | Mtx_lock c_ptr
  | Mtx_trylock c_ptr
  | Mtx_unlock c_ptr
  | Cnd_init c_ptr
  | Cnd_destroy c_ptr
  | Cnd_signal c_ptr
  | Cnd_broadcast c_ptr
  | Cnd_wait c_ptr c_ptr
  | Tss_create c_ptr c_ptr
  | Tss_delete tss_t
  | Tss_set tss_t c_ptr
  | Tss_get tss_t
  | Call_once c_ptr c_ptr

text \<open>
  The value and the world that a call comes back with; \<open>None\<close> when control does not
  come back to the caller (the call stays suspended, or it is \<^verbatim>\<open>thrd_exit\<close>).
\<close>

fun api :: "'n pthreads \<Rightarrow> api_call \<Rightarrow> 'n world \<Rightarrow> (c_value \<times> 'n world) option" where
  "api P (Thrd_create thr func arg) w =
     (case thrd_create P thr func arg w of (s, w') \<Rightarrow> Some (V_int s, w'))"
| "api P (Thrd_exit res) w = None"
| "api P (Thrd_join thr res) w =
     (case thrd_join P thr res w of None \<Rightarrow> None | Some (s, w') \<Rightarrow> Some (V_int s, w'))"
| "api P (Thrd_detatch thr) w =
     (case thrd_detatch P thr w of (s, w') \<Rightarrow> Some (V_int s, w'))"
| "api P Thrd_current w = Some (V_thrd (thrd_current P w), w)"
| "api P (Thrd_equal a b) w = Some (V_int (thrd_equal P a b), w)"
| "api P Thrd_yield w = Some (V_void, thrd_yield P w)"
| "api P (Mtx_init mtx type) w =
     (case mtx_init P mtx type w of (s, w') \<Rightarrow> Some (V_int s, w'))"
| "api P (Mtx_destroy mtx) w = Some (V_void, mtx_destroy P mtx w)"
| "api P (Mtx_lock mtx) w =
     (case mtx_lock P mtx w of None \<Rightarrow> None | Some (s, w') \<Rightarrow> Some (V_int s, w'))"
| "api P (Mtx_trylock mtx) w =
     (case mtx_trylock P mtx w of (s, w') \<Rightarrow> Some (V_int s, w'))"
| "api P (Mtx_unlock mtx) w =
     (case mtx_unlock P mtx w of (s, w') \<Rightarrow> Some (V_int s, w'))"
| "api P (Cnd_init cond) w =
     (case cnd_init P cond w of (s, w') \<Rightarrow> Some (V_int s, w'))"
| "api P (Cnd_destroy cond) w = Some (V_void, cnd_destroy P cond w)"
| "api P (Cnd_signal cond) w =
     (case cnd_signal P cond w of (s, w') \<Rightarrow> Some (V_int s, w'))"
| "api P (Cnd_broadcast cond) w =
     (case cnd_broadcast P cond w of (s, w') \<Rightarrow> Some (V_int s, w'))"
| "api P (Cnd_wait cond mtx) w =
     (case cnd_wait P cond mtx w of None \<Rightarrow> None | Some (s, w') \<Rightarrow> Some (V_int s, w'))"
| "api P (Tss_create key dtor) w =
     (case tss_create P key dtor w of (s, w') \<Rightarrow> Some (V_int s, w'))"
| "api P (Tss_delete key) w = Some (V_void, tss_delete P key w)"
| "api P (Tss_set key val) w =
     (case tss_set P key val w of (s, w') \<Rightarrow> Some (V_int s, w'))"
| "api P (Tss_get key) w = Some (V_ptr (tss_get P key w), w)"
| "api P (Call_once flag func) w =
     (case call_once P flag func w of None \<Rightarrow> None | Some w' \<Rightarrow> Some (V_void, w'))"

text \<open>A returned value that is one of the four status constants.\<close>

definition is_status :: "c_value \<Rightarrow> bool" where
  "is_status v =
     (v = V_int thrd_success \<or> v = V_int thrd_busy \<or> v = V_int thrd_error \<or> v = V_int thrd_nomem)"

text \<open>
  The functions whose int result is a status (\<^verbatim>\<open>thrd_equal\<close> returns the int of
  \<^verbatim>\<open>pthread_equal\<close>, a truth value), and the functions declared \<^verbatim>\<open>void\<close>
  that return.
\<close>

fun status_call :: "api_call \<Rightarrow> bool" where
  "status_call (Thrd_create thr func arg) = True"
| "status_call (Thrd_join thr res) = True"
| "status_call (Thrd_detatch thr) = True"
| "status_call (Mtx_init mtx type) = True"
| "status_call (Mtx_lock mtx) = True"
| "status_call (Mtx_trylock mtx) = True"
| "status_call (Mtx_unlock mtx) = True"
| "status_call (Cnd_init cond) = True"
| "status_call (Cnd_signal cond) = True"
| "status_call (Cnd_broadcast cond) = True"
| "status_call (Cnd_wait cond mtx) = True"
| "status_call (Tss_create key dtor) = True"
| "status_call (Tss_set key val) = True"
| "status_call c = False"

fun void_call :: "api_call \<Rightarrow> bool" where
  "void_call Thrd_yield = True"
| "void_call (Mtx_destroy mtx) = True"
| "void_call (Cnd_destroy cond) = True"
| "void_call (Tss_delete key) = True"
| "void_call (Call_once flag func) = True"
| "void_call c = False"

section \<open>A reference native facility\<close>

text \<open>
  Modelled from the spec: the native threading facility (the pthread library) is an
  external dependency whose code is not in the repository. This is a sequential
  reference model of it, one call at a time on behalf of the calling thread \<open>cur\<close>,
  following sections 3 and 4 of the specification: threads that are joinable until
  joined or detached, an exit value kept for a future join, mutexes owned by at most
  one thread, keys with one slot per thread that reads as null until set, and once-flags
  with the two states not-run and run. Error numbers are those of Linux. It gives the
  concrete inputs at which the theorems about the wrappers are instantiated.
\<close>

datatype thread_state = Running | Exited c_ptr

record ref_state =
  cur :: thrd_t
  threads :: "thrd_t \<rightharpoonup> thread_state"
  next_tid :: thrd_t
  capacity :: nat
  handles :: "c_ptr \<Rightarrow> thrd_t"
  mutexes :: "c_ptr \<rightharpoonup> thrd_t option"
  conds :: "c_ptr \<Rightarrow> bool"
  keys :: "tss_t \<Rightarrow> bool"
  next_key :: tss_t
  key_objs :: "c_ptr \<Rightarrow> tss_t"
  dtors :: "tss_t \<Rightarrow> c_ptr"
  slots :: "thrd_t \<Rightarrow> tss_t \<Rightarrow> c_ptr"
  once_done :: "c_ptr \<Rightarrow> bool"
  once_log :: "c_ptr list"

definition EPERM :: c_int where "EPERM = 1"
definition ESRCH :: c_int where "ESRCH = 3"
definition EAGAIN :: c_int where "EAGAIN = 11"
definition EINVAL :: c_int where "EINVAL = 22"

text \<open>Thread creation fails with EAGAIN when the system has no room for another thread.\<close>

definition ref_create :: "c_ptr \<Rightarrow> c_ptr \<Rightarrow> c_ptr \<Rightarrow> c_ptr \<Rightarrow> ref_state \<Rightarrow> c_int \<times> ref_state" where
  "ref_create thr attr start arg n =
     (if capacity n = 0 then (EAGAIN, n)
      else (0, n\<lparr>threads := (threads n)(next_tid n \<mapsto> Running),
                  next_tid := next_tid n + 1,
                  capacity := capacity n - 1,
                  handles := (handles n)(thr := next_tid n)\<rparr>))"

definition ref_exit :: "c_ptr \<Rightarrow> ref_state \<Rightarrow> ref_state" where
  "ref_exit v n =
     (case threads n (cur n) of
        None \<Rightarrow> n
      | Some s \<Rightarrow> n\<lparr>threads := (threads n)(cur n \<mapsto> Exited v)\<rparr>)"

text \<open>Joining a thread that still runs does not come back in this state.\<close>

definition ref_join :: "thrd_t \<Rightarrow> ref_state \<Rightarrow> ((c_int \<times> c_ptr) \<times> ref_state) option" where
  "ref_join t n =
     (case threads n t of
        None \<Rightarrow> Some ((ESRCH, 0), n)
      | Some Running \<Rightarrow> if t = cur n then Some ((35, 0), n) else None
      | Some (Exited v) \<Rightarrow> Some ((0, v), n\<lparr>threads := (threads n)(t := None)\<rparr>))"

definition ref_detach :: "thrd_t \<Rightarrow> ref_state \<Rightarrow> c_int \<times> ref_state" where
  "ref_detach t n =
     (case threads n t of
        None \<Rightarrow> (ESRCH, n)
      | Some s \<Rightarrow> (0, n\<lparr>threads := (threads n)(t := None)\<rparr>))"

definition ref_equal :: "thrd_t \<Rightarrow> thrd_t \<Rightarrow> c_int" where
  "ref_equal a b = (if a = b then 1 else 0)"

definition ref_yield :: "ref_state \<Rightarrow> c_int \<times> ref_state" where
  "ref_yield n = (0, n)"

definition ref_mutex_init :: "c_ptr \<Rightarrow> c_ptr \<Rightarrow> ref_state \<Rightarrow> c_int \<times> ref_state" where
  "ref_mutex_init m attr n = (0, n\<lparr>mutexes := (mutexes n)(m \<mapsto> None)\<rparr>)"

definition ref_mutex_destroy :: "c_ptr \<Rightarrow> ref_state \<Rightarrow> c_int \<times> ref_state" where
  "ref_mutex_destroy m n =
     (case mutexes n m of
        None \<Rightarrow> (EINVAL, n)
      | Some None \<Rightarrow> (0, n\<lparr>mutexes := (mutexes n)(m := None)\<rparr>)
      | Some (Some t) \<Rightarrow> (16, n))"

text \<open>
  A relock by the owner is reported as EDEADLK (35); a lock held by another thread
  suspends the caller.
\<close>

definition ref_mutex_lock :: "c_ptr \<Rightarrow> ref_state \<Rightarrow> (c_int \<times> ref_state) option" where
  "ref_mutex_lock m n =
     (case mutexes n m of
        None \<Rightarrow> Some (EINVAL, n)
      | Some None \<Rightarrow> Some (0, n\<lparr>mutexes := (mutexes n)(m \<mapsto> Some (cur n))\<rparr>)
      | Some (Some t) \<Rightarrow> if t = cur n then Some (35, n) else None)"

definition ref_mutex_trylock :: "c_ptr \<Rightarrow> ref_state \<Rightarrow> c_int \<times> ref_state" where
  "ref_mutex_trylock m n =
     (case mutexes n m of
        None \<Rightarrow> (EINVAL, n)
      | Some None \<Rightarrow> (0, n\<lparr>mutexes := (mutexes n)(m \<mapsto> Some (cur n))\<rparr>)
      | Some (Some t) \<Rightarrow> (16, n))"

definition ref_mutex_unlock :: "c_ptr \<Rightarrow> ref_state \<Rightarrow> c_int \<times> ref_state" where
  "ref_mutex_unlock m n =
     (case mutexes n m of
        None \<Rightarrow> (EINVAL, n)
      | Some None \<Rightarrow> (EPERM, n)
      | Some (Some t) \<Rightarrow>
          if t = cur n then (0, n\<lparr>mutexes := (mutexes n)(m \<mapsto> None)\<rparr>) else (EPERM, n))"

definition ref_cond_init :: "c_ptr \<Rightarrow> c_ptr \<Rightarrow> ref_state \<Rightarrow> c_int \<times> ref_state" where
  "ref_cond_init c attr n = (0, n\<lparr>conds := (conds n)(c := True)\<rparr>)"

definition ref_cond_destroy :: "c_ptr \<Rightarrow> ref_state \<Rightarrow> c_int \<times> ref_state" where
  "ref_cond_destroy c n =
     (if conds n c then (0, n\<lparr>conds := (conds n)(c := False)\<rparr>) else (EINVAL, n))"

definition ref_cond_notify :: "c_ptr \<Rightarrow> ref_state \<Rightarrow> c_int \<times> ref_state" where
  "ref_cond_notify c n = (if conds n c then (0, n) else (EINVAL, n))"

text \<open>A wait by the owner of the mutex comes back at once: a spurious wake-up.\<close>

definition ref_cond_wait :: "c_ptr \<Rightarrow> c_ptr \<Rightarrow> ref_state \<Rightarrow> (c_int \<times> ref_state) option" where
  "ref_cond_wait c m n =
     (if \<not> conds n c then Some (EINVAL, n)
      else if mutexes n m = Some (Some (cur n)) then Some (0, n)
      else Some (EPERM, n))"

text \<open>A new key reads as null in every thread.\<close>

definition ref_key_create :: "c_ptr \<Rightarrow> c_ptr \<Rightarrow> ref_state \<Rightarrow> c_int \<times> ref_state" where
  "ref_key_create kp dtor n =
     (if 1024 \<le> next_key n then (EAGAIN, n)
      else (0, n\<lparr>keys := (keys n)(next_key n := True),
                  next_key := next_key n + 1,
                  key_objs := (key_objs n)(kp := next_key n),
                  dtors := (dtors n)(next_key n := dtor),
                  slots := (\<lambda>t. (slots n t)(next_key n := NULL))\<rparr>))"

definition ref_key_delete :: "tss_t \<Rightarrow> ref_state \<Rightarrow> c_int \<times> ref_state" where
  "ref_key_delete k n =
     (if keys n k then (0, n\<lparr>keys := (keys n)(k := False)\<rparr>) else (EINVAL, n))"

definition ref_setspecific :: "tss_t \<Rightarrow> c_ptr \<Rightarrow> ref_state \<Rightarrow> c_int \<times> ref_state" where
  "ref_setspecific k v n =
     (if keys n k
      then (0, n\<lparr>slots := (slots n)(cur n := (slots n (cur n))(k := v))\<rparr>)
      else (EINVAL, n))"

definition ref_getspecific :: "tss_t \<Rightarrow> ref_state \<Rightarrow> c_ptr" where
  "ref_getspecific k n = (if keys n k then slots n (cur n) k else NULL)"

text \<open>The routine of a once-flag is run (logged) when the flag is in state not-run.\<close>

definition ref_once :: "c_ptr \<Rightarrow> c_ptr \<Rightarrow> ref_state \<Rightarrow> (c_int \<times> ref_state) option" where
  "ref_once flag init n =
     (if once_done n flag then Some (0, n)
      else Some (0, n\<lparr>once_done := (once_done n)(flag := True),
                       once_log := once_log n @ [init]\<rparr>))"

definition ref_pthreads :: "ref_state pthreads" where
  "ref_pthreads =
     \<lparr>EDEADLK = 35, EBUSY = 16,
      pthread_create = ref_create, pthread_exit = ref_exit, pthread_join = ref_join,
      pthread_detach = ref_detach, pthread_self = cur, pthread_equal = ref_equal,
      sched_yield = ref_yield,
      pthread_mutex_init = ref_mutex_init, pthread_mutex_destroy = ref_mutex_destroy,
      pthread_mutex_lock = ref_mutex_lock, pthread_mutex_trylock = ref_mutex_trylock,
      pthread_mutex_unlock = ref_mutex_unlock,
      pthread_cond_init = ref_cond_init, pthread_cond_destroy = ref_cond_destroy,
      pthread_cond_signal = ref_cond_notify, pthread_cond_broadcast = ref_cond_notify,
      pthread_cond_wait = ref_cond_wait,
      pthread_key_create = ref_key_create, pthread_key_delete = ref_key_delete,
      pthread_setspecific = ref_setspecific, pthread_getspecific = ref_getspecific,
      pthread_once = ref_once\<rparr>"

text \<open>
  A process just started: the main thread (handle 1) runs, nothing else exists, and
  \<open>c\<close> more threads can be created.
\<close>

definition ref_start :: "nat \<Rightarrow> ref_state world" where
  "ref_start c =
     \<lparr>ints = (\<lambda>a. 0),
      native = \<lparr>cur = 1, threads = [1 \<mapsto> Running], next_tid = 2, capacity = c,
                handles = (\<lambda>a. 0), mutexes = Map.empty, conds = (\<lambda>a. False),
                keys = (\<lambda>k. False), next_key = 0, key_objs = (\<lambda>a. 0),
                dtors = (\<lambda>k. 0), slots = (\<lambda>t k. NULL),
                once_done = (\<lambda>a. False), once_log = []\<rparr>\<rparr>"

text \<open>The scheduler lets thread \<open>t\<close> make the next call.\<close>

definition as_thread :: "thrd_t \<Rightarrow> ref_state world \<Rightarrow> ref_state world" where
  "as_thread t w = w\<lparr>native := (native w)\<lparr>cur := t\<rparr>\<rparr>"

text \<open>
  A run of \<^verbatim>\<open>tss_set\<close> calls on the reference facility: each entry
  \<open>(t, k, v)\<close> is thread \<open>t\<close> calling \<^verbatim>\<open>tss_set(k, v)\<close>, in list order.
\<close>

fun tss_run :: "(thrd_t \<times> tss_t \<times> c_ptr) list \<Rightarrow> ref_state world \<Rightarrow> ref_state world" where
  "tss_run [] w = w"
| "tss_run ((t, k, v) # es) w = tss_run es (snd (tss_set ref_pthreads k v (as_thread t w)))"

section \<open>Properties\<close>

lemmas status_defs = thrd_success_def thrd_busy_def thrd_error_def thrd_nomem_def

lemmas ref_defs = ref_pthreads_def ref_start_def as_thread_def
  ref_create_def ref_exit_def ref_join_def ref_detach_def ref_equal_def ref_yield_def
  ref_mutex_init_def ref_mutex_destroy_def ref_mutex_lock_def ref_mutex_trylock_def
  ref_mutex_unlock_def ref_cond_init_def ref_cond_destroy_def ref_cond_notify_def
  ref_cond_wait_def ref_key_create_def ref_key_delete_def ref_setspecific_def
  ref_getspecific_def ref_once_def EPERM_def ESRCH_def EAGAIN_def EINVAL_def

subsection \<open>Exit status of a thread\<close>

text \<open>
  Sign extension to 64 bits followed by truncation to 32 bits gives the int back: the
  casts of \<^verbatim>\<open>thrd_exit\<close> and \<^verbatim>\<open>thrd_join\<close> lose nothing.
\<close>

lemma int_ptr_roundtrip: "int_of_ptr (ptr_of_long (long_of_int i)) = i"
  unfolding int_of_ptr_def ptr_of_long_def long_of_int_def
  by (rule bit_word_eqI) (auto simp add: bit_ucast_iff bit_signed_iff dest: bit_imp_le_length)

text \<open>
  C1: for every int \<open>res\<close>, a thread that terminates through \<^verbatim>\<open>thrd_exit(res)\<close>
  makes exactly \<open>res\<close> available to join: when the native facility hands a successful
  join of that thread the pointer that was given to \<^verbatim>\<open>pthread_exit\<close>, a
  \<^verbatim>\<open>thrd_join(thr, &out)\<close> that succeeds after the exit leaves \<open>res\<close> in
  \<open>out\<close>. The round trip int, long, pointer, int preserves every int.
\<close>

theorem thrd_exit_join_roundtrip:
  assumes law: "\<And>v r v' n'. pthread_join P thr (pthread_exit P v (native w)) = Some ((r, v'), n')
                  \<Longrightarrow> r = 0 \<Longrightarrow> v' = v"
      and succ: "thrd_join P thr out (thrd_exit P res w) = Some (thrd_success, w')"
      and out: "out \<noteq> NULL"
  shows "ints w' out = res"
proof -
  let ?v = "ptr_of_long (long_of_int res)"
  from succ obtain r v' n' where
    j: "pthread_join P thr (pthread_exit P ?v (native w)) = Some ((r, v'), n')"
    by (auto simp: thrd_join_def thrd_exit_def split: option.splits)
  from succ j have r: "r = 0"
    by (auto simp: thrd_join_def thrd_exit_def thrd_success_def thrd_error_def split: if_splits)
  from law [OF j r] have v: "v' = ?v" .
  from succ j r out have "ints w' out = int_of_ptr v'"
    by (auto simp: thrd_join_def thrd_exit_def NULL_def split: if_splits)
  with v show ?thesis by (simp add: int_ptr_roundtrip)
qed

theorem thrd_exit_join_roundtrip_witness:
  "fst (the (thrd_join ref_pthreads 1 4096 (thrd_exit ref_pthreads (- 5) (ref_start 4)))) = thrd_success \<and>
   ints (snd (the (thrd_join ref_pthreads 1 4096 (thrd_exit ref_pthreads (- 5) (ref_start 4))))) 4096 = - 5"
proof -
  let ?w = "ref_start 4"
  let ?j = "thrd_join ref_pthreads 1 4096 (thrd_exit ref_pthreads (- 5) ?w)"
  have j: "?j = Some (thrd_success, snd (the ?j))"
    by (simp add: thrd_join_def thrd_exit_def ref_pthreads_def ref_start_def ref_join_def ref_exit_def)
  have "ints (snd (the ?j)) 4096 = - 5"
  proof (rule thrd_exit_join_roundtrip [where P = ref_pthreads and thr = 1 and w = ?w])
    show "?j = Some (thrd_success, snd (the ?j))" by (rule j)
    show "(4096 :: c_ptr) \<noteq> NULL" by (simp add: NULL_def)
    show "v' = v"
      if "pthread_join ref_pthreads 1 (pthread_exit ref_pthreads v (native ?w)) = Some ((r, v'), n')"
      for v r v' n'
      using that by (simp add: ref_pthreads_def ref_start_def ref_join_def ref_exit_def)
  qed
  moreover from j have "fst (the ?j) = thrd_success" by (metis fst_conv option.sel)
  ultimately show ?thesis by simp
qed

text \<open>
  C9: when the native join comes back with a failure, \<^verbatim>\<open>thrd_join\<close> returns
  \<^verbatim>\<open>thrd_error\<close> and the caller's ints are unchanged; when it succeeds and
  \<open>res\<close> is null, \<^verbatim>\<open>thrd_join\<close> returns \<^verbatim>\<open>thrd_success\<close> and the exit
  value is dropped; the only write is through a non-null \<open>res\<close> after a successful
  join, and it stores the exit value converted to int.
\<close>

theorem thrd_join_result:
  assumes ret: "pthread_join P thr (native w) = Some ((r, retval), n')"
  shows "\<exists>s w'. thrd_join P thr res w = Some (s, w') \<and> native w' = n' \<and>
           (r \<noteq> 0 \<longrightarrow> s = thrd_error \<and> ints w' = ints w) \<and>
           (r = 0 \<and> res = NULL \<longrightarrow> s = thrd_success \<and> ints w' = ints w) \<and>
           (r = 0 \<and> res \<noteq> NULL \<longrightarrow>
              s = thrd_success \<and> ints w' = (ints w)(res := int_of_ptr retval)) \<and>
           (ints w' \<noteq> ints w \<longrightarrow> res \<noteq> NULL \<and> r = 0)"
  using ret by (simp add: thrd_join_def NULL_def)

theorem thrd_join_result_witness:
  "fst (the (thrd_join ref_pthreads 7 4096 (ref_start 4))) = thrd_error \<and>
   ints (snd (the (thrd_join ref_pthreads 7 4096 (ref_start 4)))) = ints (ref_start 4) \<and>
   fst (the (thrd_join ref_pthreads 1 NULL (thrd_exit ref_pthreads 9 (ref_start 4)))) = thrd_success \<and>
   ints (snd (the (thrd_join ref_pthreads 1 NULL (thrd_exit ref_pthreads 9 (ref_start 4)))))
     = ints (ref_start 4) \<and>
   fst (the (thrd_join ref_pthreads 1 4096 (thrd_exit ref_pthreads 9 (ref_start 4)))) = thrd_success \<and>
   ints (snd (the (thrd_join ref_pthreads 1 4096 (thrd_exit ref_pthreads 9 (ref_start 4)))))
     = (ints (ref_start 4))(4096 := 9)"
proof -
  let ?w0 = "ref_start 4"
  let ?w1 = "thrd_exit ref_pthreads 9 ?w0"
  have r0: "pthread_join ref_pthreads 7 (native ?w0) = Some ((ESRCH, 0), native ?w0)"
    by (simp add: ref_defs)
  have r1: "pthread_join ref_pthreads 1 (native ?w1)
      = Some ((0, 9), snd (the (ref_join 1 (native ?w1))))"
    by (simp add: ref_defs thrd_exit_def long_of_int_def ptr_of_long_def)
  have ne: "ESRCH \<noteq> 0" "(4096 :: c_ptr) \<noteq> NULL" "int_of_ptr 9 = 9" "ints ?w1 = ints ?w0"
    by (simp_all add: ESRCH_def NULL_def int_of_ptr_def thrd_exit_def)
  from thrd_join_result [OF r0, of 4096] thrd_join_result [OF r1, of NULL]
    thrd_join_result [OF r1, of 4096] ne
  show ?thesis by auto
qed

subsection \<open>Status of thread creation\<close>

text \<open>
  C5: \<^verbatim>\<open>thrd_create\<close> calls the native creation once, with null attributes and
  the caller's handle pointer. When that returns 0 the result is
  \<^verbatim>\<open>thrd_success\<close> and the native state (the handle in it) is the one the
  creation left; when it returns anything else the result is \<^verbatim>\<open>thrd_error\<close>.
  The result is never \<^verbatim>\<open>thrd_busy\<close>, and the state is that of one call: no
  retry.
\<close>

theorem thrd_create_status:
  assumes ret: "pthread_create P thr NULL func arg (native w) = (r, n')"
  shows "\<exists>s. thrd_create P thr func arg w = (s, w\<lparr>native := n'\<rparr>) \<and>
             (r = 0 \<longrightarrow> s = thrd_success) \<and>
             (r \<noteq> 0 \<longrightarrow> s = thrd_error) \<and>
             (s = thrd_success \<or> s = thrd_error \<or> s = thrd_nomem) \<and>
             s \<noteq> thrd_busy"
  using ret by (simp add: thrd_create_def NULL_def status_defs)

theorem thrd_create_status_witness:
  "fst (thrd_create ref_pthreads 256 8192 0 (ref_start 4)) = thrd_success \<and>
   handles (native (snd (thrd_create ref_pthreads 256 8192 0 (ref_start 4)))) 256 = 2 \<and>
   threads (native (snd (thrd_create ref_pthreads 256 8192 0 (ref_start 4)))) 2 = Some Running \<and>
   fst (thrd_create ref_pthreads 256 8192 0 (ref_start 0)) = thrd_error"
proof -
  let ?ok = "snd (ref_create 256 NULL 8192 0 (native (ref_start 4)))"
  have r1: "pthread_create ref_pthreads 256 NULL 8192 0 (native (ref_start 4)) = (0, ?ok)"
    by (simp add: ref_defs)
  have r2: "pthread_create ref_pthreads 256 NULL 8192 0 (native (ref_start 0))
              = (EAGAIN, native (ref_start 0))"
    by (simp add: ref_defs)
  have ne: "EAGAIN \<noteq> 0" by (simp add: EAGAIN_def)
  have h: "handles ?ok 256 = 2" "threads ?ok 2 = Some Running"
    by (simp_all add: ref_defs)
  from thrd_create_status [OF r1] thrd_create_status [OF r2] ne h
  show ?thesis by auto
qed

subsection \<open>Mutexes\<close>

text \<open>
  C4: for every mode value (plain, recursive, timed, try-capable or any other int),
  \<^verbatim>\<open>mtx_init\<close> gives the same status and constructs the same mutex as with
  mode plain: the mode has no effect, and the native mutex is always created with the
  default (null) attributes.
\<close>

theorem mtx_init_ignores_type:
  "mtx_init P mtx type w = mtx_init P mtx mtx_plain w \<and>
   mtx_init P mtx type w =
     (if fst (pthread_mutex_init P mtx NULL (native w)) = 0 then thrd_success else thrd_error,
      w\<lparr>native := snd (pthread_mutex_init P mtx NULL (native w))\<rparr>)"
  by (simp add: mtx_init_def split: prod.splits)

text \<open>
  C2: on a platform whose EDEADLK is not 0 (errno values are positive), whenever the
  native lock comes back: with EDEADLK, \<^verbatim>\<open>mtx_lock\<close> returns
  \<^verbatim>\<open>thrd_busy\<close>; with 0, \<^verbatim>\<open>thrd_success\<close>; with anything else,
  \<^verbatim>\<open>thrd_error\<close>.
\<close>

theorem mtx_lock_status:
  assumes errno: "EDEADLK P \<noteq> 0"
      and ret: "pthread_mutex_lock P mtx (native w) = Some (res, n')"
  shows "\<exists>s. mtx_lock P mtx w = Some (s, w\<lparr>native := n'\<rparr>) \<and>
             (res = EDEADLK P \<longrightarrow> s = thrd_busy) \<and>
             (res = 0 \<longrightarrow> s = thrd_success) \<and>
             (res \<noteq> EDEADLK P \<and> res \<noteq> 0 \<longrightarrow> s = thrd_error)"
  using errno ret by (simp add: mtx_lock_def)

theorem mtx_lock_status_witness:
  "fst (the (mtx_lock ref_pthreads 64 (snd (the (mtx_lock ref_pthreads 64
       (snd (mtx_init ref_pthreads 64 mtx_plain (ref_start 4)))))))) = thrd_busy \<and>
   fst (the (mtx_lock ref_pthreads 64 (snd (mtx_init ref_pthreads 64 mtx_plain (ref_start 4))))) = thrd_success \<and>
   fst (the (mtx_lock ref_pthreads 64 (ref_start 4))) = thrd_error"
proof -
  let ?w0 = "ref_start 4"
  let ?w1 = "snd (mtx_init ref_pthreads 64 mtx_plain ?w0)"
  let ?w2 = "snd (the (mtx_lock ref_pthreads 64 ?w1))"
  have e: "EDEADLK ref_pthreads \<noteq> 0" by (simp add: ref_pthreads_def)
  have r0: "pthread_mutex_lock ref_pthreads 64 (native ?w0) = Some (EINVAL, native ?w0)"
    by (simp add: ref_defs)
  have r1: "pthread_mutex_lock ref_pthreads 64 (native ?w1) = Some (0, native ?w2)"
    by (simp add: ref_defs mtx_init_def mtx_lock_def)
  have r2: "pthread_mutex_lock ref_pthreads 64 (native ?w2) = Some (EDEADLK ref_pthreads, native ?w2)"
    by (simp add: ref_defs mtx_init_def mtx_lock_def)
  have ne: "EINVAL \<noteq> EDEADLK ref_pthreads" "EINVAL \<noteq> 0"
    by (simp_all add: ref_pthreads_def EINVAL_def)
  have "fst (the (mtx_lock ref_pthreads 64 ?w2)) = thrd_busy"
    using mtx_lock_status [OF e r2] by (metis fst_conv option.sel)
  moreover have "fst (the (mtx_lock ref_pthreads 64 ?w1)) = thrd_success"
    using mtx_lock_status [OF e r1] by (metis fst_conv option.sel)
  moreover have "fst (the (mtx_lock ref_pthreads 64 ?w0)) = thrd_error"
    using mtx_lock_status [OF e r0] ne by (metis fst_conv option.sel)
  ultimately show ?thesis by simp
qed

text \<open>
  C3: on a platform whose EBUSY is not 0, \<^verbatim>\<open>mtx_trylock\<close> always comes back
  (the native trylock does not suspend the caller), and: when the native trylock reports
  EBUSY it returns \<^verbatim>\<open>thrd_busy\<close>; when it returns 0, \<^verbatim>\<open>thrd_success\<close>;
  for anything else, \<^verbatim>\<open>thrd_error\<close>.
\<close>

theorem mtx_trylock_status:
  assumes errno: "EBUSY P \<noteq> 0"
      and ret: "pthread_mutex_trylock P mtx (native w) = (res, n')"
  shows "\<exists>s. mtx_trylock P mtx w = (s, w\<lparr>native := n'\<rparr>) \<and>
             (res = EBUSY P \<longrightarrow> s = thrd_busy) \<and>
             (res = 0 \<longrightarrow> s = thrd_success) \<and>
             (res \<noteq> EBUSY P \<and> res \<noteq> 0 \<longrightarrow> s = thrd_error)"
  using errno ret by (simp add: mtx_trylock_def)

theorem mtx_trylock_status_witness:
  "fst (mtx_trylock ref_pthreads 64 (as_thread 2 (snd (mtx_trylock ref_pthreads 64
       (snd (mtx_init ref_pthreads 64 mtx_plain (ref_start 4))))))) = thrd_busy \<and>
   fst (mtx_trylock ref_pthreads 64 (snd (mtx_init ref_pthreads 64 mtx_plain (ref_start 4)))) = thrd_success \<and>
   fst (mtx_trylock ref_pthreads 64 (ref_start 4)) = thrd_error"
proof -
  let ?w0 = "ref_start 4"
  let ?w1 = "snd (mtx_init ref_pthreads 64 mtx_plain ?w0)"
  let ?w2 = "as_thread 2 (snd (mtx_trylock ref_pthreads 64 ?w1))"
  have e: "EBUSY ref_pthreads \<noteq> 0" by (simp add: ref_pthreads_def)
  have r0: "pthread_mutex_trylock ref_pthreads 64 (native ?w0) = (EINVAL, native ?w0)"
    by (simp add: ref_defs)
  have r1: "pthread_mutex_trylock ref_pthreads 64 (native ?w1)
              = (0, native (snd (mtx_trylock ref_pthreads 64 ?w1)))"
    by (simp add: ref_defs mtx_init_def mtx_trylock_def)
  have r2: "pthread_mutex_trylock ref_pthreads 64 (native ?w2) = (EBUSY ref_pthreads, native ?w2)"
    by (simp add: ref_defs mtx_init_def mtx_trylock_def)
  have ne: "EINVAL \<noteq> EBUSY ref_pthreads" "EINVAL \<noteq> 0"
    by (simp_all add: ref_pthreads_def EINVAL_def)
  have "fst (mtx_trylock ref_pthreads 64 ?w2) = thrd_busy"
    using mtx_trylock_status [OF e r2] by (metis fst_conv)
  moreover have "fst (mtx_trylock ref_pthreads 64 ?w1) = thrd_success"
    using mtx_trylock_status [OF e r1] by (metis fst_conv)
  moreover have "fst (mtx_trylock ref_pthreads 64 ?w0) = thrd_error"
    using mtx_trylock_status [OF e r0] ne by (metis fst_conv)
  ultimately show ?thesis by simp
qed

subsection \<open>Destruction\<close>

text \<open>
  C10: \<^verbatim>\<open>mtx_destroy\<close>, \<^verbatim>\<open>cnd_destroy\<close> and \<^verbatim>\<open>tss_delete\<close>
  hand back no status (they are void), and the int of the native primitive is dropped:
  whatever code \<open>rc\<close> the primitive reports for the same effect on the native state, the
  caller gets the same result, so a failed destruction looks to the caller like a
  successful one.
\<close>

theorem destroy_discards_status:
  "mtx_destroy (P\<lparr>pthread_mutex_destroy := \<lambda>m n. (rc, snd (pthread_mutex_destroy P m n))\<rparr>) mtx w
     = mtx_destroy P mtx w \<and>
   cnd_destroy (P\<lparr>pthread_cond_destroy := \<lambda>c n. (rc, snd (pthread_cond_destroy P c n))\<rparr>) cond w
     = cnd_destroy P cond w \<and>
   tss_delete (P\<lparr>pthread_key_delete := \<lambda>k n. (rc, snd (pthread_key_delete P k n))\<rparr>) key w
     = tss_delete P key w \<and>
   fst (the (api P (Mtx_destroy mtx) w)) = V_void \<and>
   fst (the (api P (Cnd_destroy cond) w)) = V_void \<and>
   fst (the (api P (Tss_delete key) w)) = V_void"
  by (simp add: mtx_destroy_def cnd_destroy_def tss_delete_def)

subsection \<open>Returned values\<close>

text \<open>
  C6, as the code has it: every operation that returns a status (thread create, join
  and detach; mutex init, lock, trylock and unlock; condition init, signal, broadcast
  and wait; key create and set) returns exactly one value of the closed set
  success, busy, generic-error, out-of-memory whenever it comes back; \<^verbatim>\<open>call_once\<close>,
  \<^verbatim>\<open>mtx_destroy\<close>, \<^verbatim>\<open>cnd_destroy\<close>, \<^verbatim>\<open>tss_delete\<close> and
  \<^verbatim>\<open>thrd_yield\<close> are void and return no status.
\<close>

theorem returned_values:
  assumes ret: "api P c w = Some (v, w')"
  shows "(status_call c \<longrightarrow> is_status v) \<and> (void_call c \<longrightarrow> v = V_void)"
  using ret
  by (cases c)
     (auto simp: is_status_def thrd_create_def thrd_join_def thrd_detatch_def mtx_init_def
        mtx_lock_def mtx_trylock_def mtx_unlock_def cnd_init_def cnd_signal_def
        cnd_broadcast_def cnd_wait_def tss_create_def tss_set_def call_once_def
        split: prod.splits option.splits if_splits)

theorem returned_values_witness:
  "status_call (Mtx_trylock 64) \<and>
   is_status (fst (the (api ref_pthreads (Mtx_trylock 64) (ref_start 4)))) \<and>
   void_call (Call_once 8 16) \<and>
   fst (the (api ref_pthreads (Call_once 8 16) (ref_start 4))) = V_void"
proof -
  let ?w = "ref_start 4"
  have a: "api ref_pthreads (Mtx_trylock 64) ?w = Some (V_int thrd_error, ?w)"
    by (simp add: mtx_trylock_def ref_defs)
  have b: "api ref_pthreads (Call_once 8 16) ?w
      = Some (V_void, the (call_once ref_pthreads 8 16 ?w))"
    by (simp add: call_once_def ref_defs)
  from returned_values [OF a] returned_values [OF b] a b show ?thesis by simp
qed

text \<open>
  The claim as the specification words it (every operation, \<^verbatim>\<open>call_once\<close>
  included, returns a status) fails: a \<^verbatim>\<open>call_once\<close> that comes back hands
  its caller no status value.
\<close>

theorem call_once_returns_no_status:
  "\<not> is_status (fst (the (api ref_pthreads (Call_once 8 16) (ref_start 4))))"
  by (simp add: call_once_def ref_pthreads_def ref_once_def ref_start_def is_status_def)

subsection \<open>Thread-specific data\<close>

lemma tss_get_as_thread:
  "tss_get ref_pthreads K (as_thread A w)
     = (if keys (native w) K then slots (native w) A K else NULL)"
  by (simp add: tss_get_def ref_pthreads_def ref_getspecific_def as_thread_def)

lemma tss_set_keys:
  "keys (native (snd (tss_set ref_pthreads k v (as_thread t w)))) = keys (native w)"
  by (simp add: tss_set_def ref_pthreads_def ref_setspecific_def as_thread_def)

lemma tss_set_slots:
  "slots (native (snd (tss_set ref_pthreads k v (as_thread t w))))
     = (if keys (native w) k then (slots (native w))(t := (slots (native w) t)(k := v))
        else slots (native w))"
  by (simp add: tss_set_def ref_pthreads_def ref_setspecific_def as_thread_def)

lemma tss_run_keys: "keys (native (tss_run es w)) = keys (native w)"
  by (induction es arbitrary: w) (auto simp: tss_set_keys)

lemma tss_run_append: "tss_run (xs @ ys) w = tss_run ys (tss_run xs w)"
  by (induction xs arbitrary: w) auto

text \<open>Calls by other threads, or for other keys, leave the slot of \<open>B\<close> for \<open>K\<close> alone.\<close>

lemma tss_run_untouched:
  "\<forall>e\<in>set es. \<not> (fst e = B \<and> fst (snd e) = K) \<Longrightarrow>
   slots (native (tss_run es w)) B K = slots (native w) B K"
proof (induction es arbitrary: w)
  case Nil
  then show ?case by simp
next
  case (Cons e es)
  obtain t k v where e: "e = (t, k, v)" by (cases e)
  with Cons.prems have "\<not> (t = B \<and> k = K)" by simp
  then have "slots (native (snd (tss_set ref_pthreads k v (as_thread t w)))) B K
      = slots (native w) B K"
    by (auto simp: tss_set_slots)
  with Cons e show ?case by simp
qed

lemma tss_create_fresh:
  assumes "tss_create ref_pthreads kp dtor w0 = (thrd_success, w1)"
  shows "keys (native w1) (key_objs (native w1) kp)"
    and "slots (native w1) t (key_objs (native w1) kp) = NULL"
  using assms
  by (auto simp: tss_create_def ref_pthreads_def ref_key_create_def status_defs EAGAIN_def
      split: if_splits)

text \<open>
  C7, on the reference facility: let \<open>K\<close> be the key that a successful
  \<^verbatim>\<open>tss_create\<close> stored, and let any threads then make any \<^verbatim>\<open>tss_set\<close>
  calls. If thread \<open>A\<close> called \<^verbatim>\<open>tss_set(K, v)\<close> and has not set \<open>K\<close>
  again since, \<^verbatim>\<open>tss_get(K)\<close> on \<open>A\<close> returns \<open>v\<close>, whatever the other
  threads stored. If thread \<open>B\<close> never called \<^verbatim>\<open>tss_set\<close> for \<open>K\<close>,
  \<^verbatim>\<open>tss_get(K)\<close> on \<open>B\<close> returns null, whatever the other threads stored.
\<close>

theorem tss_set_get_per_thread:
  assumes created: "tss_create ref_pthreads kp dtor w0 = (thrd_success, w1)"
      and key: "K = key_objs (native w1) kp"
  shows "((\<forall>e\<in>set es2. \<not> (fst e = A \<and> fst (snd e) = K)) \<longrightarrow>
            tss_get ref_pthreads K (as_thread A (tss_run (es1 @ (A, K, v) # es2) w1)) = v) \<and>
         ((\<forall>e\<in>set es. \<not> (fst e = B \<and> fst (snd e) = K)) \<longrightarrow>
            tss_get ref_pthreads K (as_thread B (tss_run es w1)) = NULL)"
proof (intro conjI impI)
  have k1: "keys (native w1) K" and s1: "\<And>t. slots (native w1) t K = NULL"
    using tss_create_fresh [OF created] key by simp_all
  {
    assume quiet: "\<forall>e\<in>set es2. \<not> (fst e = A \<and> fst (snd e) = K)"
    let ?w2 = "tss_run es1 w1"
    let ?w3 = "snd (tss_set ref_pthreads K v (as_thread A ?w2))"
    have "keys (native ?w2) K" using k1 by (simp add: tss_run_keys)
    then have "slots (native ?w3) A K = v" by (simp add: tss_set_slots)
    with tss_run_untouched [OF quiet, of ?w3]
    have "slots (native (tss_run (es1 @ (A, K, v) # es2) w1)) A K = v"
      by (simp add: tss_run_append)
    with k1 show "tss_get ref_pthreads K (as_thread A (tss_run (es1 @ (A, K, v) # es2) w1)) = v"
      by (simp add: tss_get_as_thread tss_run_keys)
  }
  {
    assume never: "\<forall>e\<in>set es. \<not> (fst e = B \<and> fst (snd e) = K)"
    from tss_run_untouched [OF never, of w1] s1
    show "tss_get ref_pthreads K (as_thread B (tss_run es w1)) = NULL"
      by (simp add: tss_get_as_thread)
  }
qed

theorem tss_set_get_per_thread_witness:
  "fst (tss_create ref_pthreads 512 0 (ref_start 4)) = thrd_success \<and>
   tss_get ref_pthreads 0 (as_thread 1
     (tss_run [(1, 0, 16), (1, 0, 32), (2, 0, 48)] (snd (tss_create ref_pthreads 512 0 (ref_start 4)))))
     = 32 \<and>
   tss_get ref_pthreads 0 (as_thread 3
     (tss_run [(1, 0, 16), (1, 0, 32), (2, 0, 48)] (snd (tss_create ref_pthreads 512 0 (ref_start 4)))))
     = NULL"
proof -
  let ?w1 = "snd (tss_create ref_pthreads 512 0 (ref_start 4))"
  have ok: "fst (tss_create ref_pthreads 512 0 (ref_start 4)) = thrd_success"
    by (simp add: tss_create_def ref_defs)
  then have c: "tss_create ref_pthreads 512 0 (ref_start 4) = (thrd_success, ?w1)"
    by (metis prod.collapse)
  have k: "(0 :: tss_t) = key_objs (native ?w1) 512"
    by (simp add: tss_create_def ref_defs)
  have q1: "\<forall>e\<in>set [(2 :: thrd_t, 0 :: tss_t, 48 :: c_ptr)]. \<not> (fst e = 1 \<and> fst (snd e) = 0)"
    by simp
  have q2: "\<forall>e\<in>set [(1 :: thrd_t, 0 :: tss_t, 16 :: c_ptr), (1, 0, 32), (2, 0, 48)].
              \<not> (fst e = 3 \<and> fst (snd e) = 0)"
    by simp
  from tss_set_get_per_thread [OF c k, of "[(2, 0, 48)]" 1 "[(1, 0, 16)]" 32
      "[(1, 0, 16), (1, 0, 32), (2, 0, 48)]" 3] q1 q2 ok
  show ?thesis by simp
qed

end
